theory Spec2Isabelle
  imports Main "HOL-Library.Word"
begin

unbundle bit_operations_syntax

section \<open>Python values\<close>

text \<open>
  The three scripts move pickled protein records through a PostgreSQL table and back.
  A record is a Python dict; its values are the Python objects a pickle of this
  dataset holds.  Strings are lists of code points below 256, bytes are lists of
  octets, integers are unbounded, and a dict is an association list in insertion
  order (its keys are strings, pairwise different in a dict Python can build).
\<close>

type_synonym byte = "8 word"

datatype pyval =
    PNone
  | PBool bool
  | PInt int
  | PStr string
  | PBytes "byte list"
  | PList "pyval list"
  | PDict "(string \<times> pyval) list"

type_synonym protein = "(string \<times> pyval) list"

text \<open>Exceptions of the interpreter and of the database driver, as values.\<close>

datatype py_error =
    KeyError string
  | TypeError
  | AttributeError
  | AssertionError
  | IndexError
  | UndefinedColumn string
  | DuplicateColumn string
  | NotNullViolation string
  | StringDataRightTruncation string
  | DatatypeMismatch string

definition ebind :: "py_error + 'a \<Rightarrow> ('a \<Rightarrow> py_error + 'b) \<Rightarrow> py_error + 'b" where
  "ebind m f = (case m of Inl e \<Rightarrow> Inl e | Inr x \<Rightarrow> f x)"

fun emap :: "('a \<Rightarrow> py_error + 'b) \<Rightarrow> 'a list \<Rightarrow> py_error + 'b list" where
  "emap f [] = Inr []"
| "emap f (x # xs) =
     (case f x of Inl e \<Rightarrow> Inl e
      | Inr y \<Rightarrow> (case emap f xs of Inl e \<Rightarrow> Inl e | Inr ys \<Rightarrow> Inr (y # ys)))"

text \<open>\<^verbatim>\<open>d[k]\<close> on a dict raises KeyError for a missing key; \<^verbatim>\<open>d.get(k, default)\<close> does not.\<close>

definition dict_item :: "(string \<times> pyval) list \<Rightarrow> string \<Rightarrow> py_error + pyval" where
  "dict_item d k = (case map_of d k of None \<Rightarrow> Inl (KeyError k) | Some v \<Rightarrow> Inr v)"

definition dict_get :: "(string \<times> pyval) list \<Rightarrow> string \<Rightarrow> pyval \<Rightarrow> pyval" where
  "dict_get d k dflt = (case map_of d k of None \<Rightarrow> dflt | Some v \<Rightarrow> v)"

text \<open>\<^verbatim>\<open>p[k]\<close> with a string key on an arbitrary object: only a dict can be indexed so.\<close>

fun py_getitem :: "pyval \<Rightarrow> string \<Rightarrow> py_error + pyval" where
  "py_getitem (PDict d) k = dict_item d k"
| "py_getitem _ k = Inl TypeError"

text \<open>Iterating an object: a list yields its elements, a dict its keys, a string its
  characters, bytes their octets as integers; anything else is not iterable.\<close>

fun py_iter :: "pyval \<Rightarrow> py_error + pyval list" where
  "py_iter (PList xs) = Inr xs"
| "py_iter (PDict d) = Inr (map (\<lambda>kv. PStr (fst kv)) d)"
| "py_iter (PStr s) = Inr (map (\<lambda>c. PStr [c]) s)"
| "py_iter (PBytes bs) = Inr (map (\<lambda>b. PInt (uint b)) bs)"
| "py_iter _ = Inl TypeError"

fun py_len :: "pyval \<Rightarrow> py_error + nat" where
  "py_len (PList xs) = Inr (length xs)"
| "py_len (PDict d) = Inr (length d)"
| "py_len (PStr s) = Inr (length s)"
| "py_len (PBytes bs) = Inr (length bs)"
| "py_len _ = Inl TypeError"

fun py_truthy :: "pyval \<Rightarrow> bool" where
  "py_truthy PNone = False"
| "py_truthy (PBool b) = b"
| "py_truthy (PInt i) = (i \<noteq> 0)"
| "py_truthy (PStr s) = (s \<noteq> [])"
| "py_truthy (PBytes bs) = (bs \<noteq> [])"
| "py_truthy (PList xs) = (xs \<noteq> [])"
| "py_truthy (PDict d) = (d \<noteq> [])"

text \<open>\<^verbatim>\<open>a or b\<close>\<close>

definition py_or :: "pyval \<Rightarrow> pyval \<Rightarrow> pyval" where
  "py_or a b = (if py_truthy a then a else b)"

text \<open>Python's \<^verbatim>\<open>==\<close>: \<^verbatim>\<open>True == 1\<close>, lists compare position by position, dicts
  compare as mappings whatever their insertion order.\<close>

fun py_eq :: "pyval \<Rightarrow> pyval \<Rightarrow> bool"
  and py_eq_list :: "pyval list \<Rightarrow> pyval list \<Rightarrow> bool"
  and py_eq_items :: "(string \<times> pyval) list \<Rightarrow> (string \<times> pyval) list \<Rightarrow> bool"
where
  "py_eq PNone PNone = True"
| "py_eq (PBool a) (PBool b) = (a = b)"
| "py_eq (PBool a) (PInt b) = ((if a then 1 else 0) = b)"
| "py_eq (PInt a) (PBool b) = (a = (if b then 1 else 0))"
| "py_eq (PInt a) (PInt b) = (a = b)"
| "py_eq (PStr a) (PStr b) = (a = b)"
| "py_eq (PBytes a) (PBytes b) = (a = b)"
| "py_eq (PList a) (PList b) = py_eq_list a b"
| "py_eq (PDict a) (PDict b) = (length a = length b \<and> py_eq_items a b)"
| "py_eq _ _ = False"
| "py_eq_list [] [] = True"
| "py_eq_list (x # xs) (y # ys) = (py_eq x y \<and> py_eq_list xs ys)"
| "py_eq_list _ _ = False"
| "py_eq_items [] d = True"
| "py_eq_items (kv # kvs) d =
     ((case map_of d (fst kv) of None \<Rightarrow> False | Some w \<Rightarrow> py_eq (snd kv) w)
      \<and> py_eq_items kvs d)"

section \<open>Text and byte encodings\<close>

text \<open>\<^verbatim>\<open>s.encode()\<close> is UTF-8: one octet below 128, two octets for the other code
  points a \<^typ>\<open>char\<close> can hold.\<close>

definition utf8_char :: "char \<Rightarrow> byte list" where
  "utf8_char c =
     (let n = (of_char c :: int)
      in if n < 128 then [of_int n] else [of_int (192 + n div 64), of_int (128 + n mod 64)])"

definition str_encode :: "string \<Rightarrow> byte list" where
  "str_encode s = concat (map utf8_char s)"

text \<open>\<^verbatim>\<open>v.encode()\<close> on an arbitrary object: only \<^verbatim>\<open>str\<close> has the method.\<close>

fun encode_method :: "pyval \<Rightarrow> py_error + byte list" where
  "encode_method (PStr s) = Inr (str_encode s)"
| "encode_method _ = Inl AttributeError"

text \<open>\<^verbatim>\<open>h.update(x)\<close> takes a bytes-like object.\<close>

fun bytes_like :: "pyval \<Rightarrow> py_error + byte list" where
  "bytes_like (PBytes bs) = Inr bs"
| "bytes_like _ = Inl TypeError"

definition hex_digit :: "int \<Rightarrow> char" where
  "hex_digit n = ''0123456789abcdef'' ! nat (n mod 16)"

definition hex2 :: "int \<Rightarrow> string" where
  "hex2 n = [hex_digit (n div 16), hex_digit n]"

function digits10 :: "int \<Rightarrow> string" where
  "digits10 n = (if n < 10 then [hex_digit n] else digits10 (n div 10) @ [hex_digit (n mod 10)])"
  by pat_completeness auto
termination
  by (relation "measure nat") auto

declare digits10.simps [simp del]

definition show_int :: "int \<Rightarrow> string" where
  "show_int i = (if i < 0 then CHR ''-'' # digits10 (- i) else digits10 i)"

subsection \<open>\<^verbatim>\<open>str()\<close> and \<^verbatim>\<open>repr()\<close>\<close>

definition bslash :: char where "bslash = CHR 0x5C"
definition squote :: char where "squote = CHR 0x27"
definition dquote :: char where "dquote = CHR 0x22"

definition str_printable :: "char \<Rightarrow> bool" where
  "str_printable c =
     (let n = (of_char c :: int) in (32 \<le> n \<and> n < 127) \<or> (161 \<le> n \<and> n \<noteq> 173))"

definition pick_quote :: "char list \<Rightarrow> char" where
  "pick_quote s = (if squote \<in> set s \<and> dquote \<notin> set s then dquote else squote)"

definition escape_char :: "bool \<Rightarrow> char \<Rightarrow> char \<Rightarrow> string" where
  "escape_char ascii_only q c =
     (if c = q \<or> c = bslash then [bslash, c]
      else if c = CHR 0x09 then [bslash, CHR ''t'']
      else if c = CHR 0x0A then [bslash, CHR ''n'']
      else if c = CHR 0x0D then [bslash, CHR ''r'']
      else if (if ascii_only then 32 \<le> (of_char c :: int) \<and> (of_char c :: int) < 127
               else str_printable c) then [c]
      else bslash # CHR ''x'' # hex2 (of_char c))"

definition repr_str :: "string \<Rightarrow> string" where
  "repr_str s = (let q = pick_quote s in q # concat (map (escape_char False q) s) @ [q])"

definition repr_bytes :: "byte list \<Rightarrow> string" where
  "repr_bytes bs =
     (let s = map (\<lambda>b. char_of (uint b)) bs; q = pick_quote s
      in CHR ''b'' # q # concat (map (escape_char True q) s) @ [q])"

fun join_with :: "string \<Rightarrow> string list \<Rightarrow> string" where
  "join_with sep [] = []"
| "join_with sep [x] = x"
| "join_with sep (x # y # ys) = x @ sep @ join_with sep (y # ys)"

fun py_repr :: "pyval \<Rightarrow> string"
  and py_repr_list :: "pyval list \<Rightarrow> string list"
  and py_repr_items :: "(string \<times> pyval) list \<Rightarrow> string list"
where
  "py_repr PNone = ''None''"
| "py_repr (PBool b) = (if b then ''True'' else ''False'')"
| "py_repr (PInt i) = show_int i"
| "py_repr (PStr s) = repr_str s"
| "py_repr (PBytes bs) = repr_bytes bs"
| "py_repr (PList xs) = ''['' @ join_with '', '' (py_repr_list xs) @ '']''"
| "py_repr (PDict d) = ''{'' @ join_with '', '' (py_repr_items d) @ ''}''"
| "py_repr_list [] = []"
| "py_repr_list (x # xs) = py_repr x # py_repr_list xs"
| "py_repr_items [] = []"
| "py_repr_items (kv # kvs) = (repr_str (fst kv) @ '': '' @ py_repr (snd kv)) # py_repr_items kvs"

text \<open>\<^verbatim>\<open>str(v)\<close> is the string itself for a string and the representation otherwise.\<close>

definition py_str :: "pyval \<Rightarrow> string" where
  "py_str v = (case v of PStr s \<Rightarrow> s | _ \<Rightarrow> py_repr v)"

subsection \<open>\<^verbatim>\<open>pickle.dumps\<close>\<close>

text \<open>
  The library's serialiser at its default protocol 4, as CPython's C pickler writes
  the value types above: a two-octet protocol header, one frame (a frame header
  only when the body has four octets or more), every string, bytes object, list and
  dict followed by MEMOIZE, list items and dict items in batches of 1000.  A value
  is written as a tree: no object is shared, so no memo lookup is ever written; a
  body of 64 KiB or more, which the library cuts into several frames, is written as
  one.
\<close>

definition le_bytes :: "nat \<Rightarrow> int \<Rightarrow> byte list" where
  "le_bytes n x = map (\<lambda>i. of_int (x div 256 ^ i)) [0..<n]"

function bit_length :: "int \<Rightarrow> nat" where
  "bit_length n = (if n \<le> 0 then 0 else Suc (bit_length (n div 2)))"
  by pat_completeness auto
termination
  by (relation "measure nat") auto

declare bit_length.simps [simp del]

definition encode_long :: "int \<Rightarrow> byte list" where
  "encode_long x =
     (if x = 0 then []
      else let nbytes = bit_length \<bar>x\<bar> div 8 + 1;
               result = le_bytes nbytes x
           in if x < 0 \<and> nbytes > 1 \<and> last result = 0xFF \<and> bit (last (butlast result)) 7
              then butlast result else result)"

definition save_long :: "int \<Rightarrow> byte list" where
  "save_long x =
     (if 0 \<le> x \<and> x \<le> 0xFF then 0x4B # le_bytes 1 x
      else if 0 \<le> x \<and> x \<le> 0xFFFF then 0x4D # le_bytes 2 x
      else if - 0x80000000 \<le> x \<and> x \<le> 0x7FFFFFFF then 0x4A # le_bytes 4 x
      else let enc = encode_long x; n = length enc
           in if int n < 256 then 0x8A # le_bytes 1 (int n) @ enc
              else 0x8B # le_bytes 4 (int n) @ enc)"

definition save_str :: "string \<Rightarrow> byte list" where
  "save_str s =
     (let enc = str_encode s; n = int (length enc)
      in (if n \<le> 0xFF then 0x8C # le_bytes 1 n
          else if n > 0xFFFFFFFF then 0x8D # le_bytes 8 n
          else 0x58 # le_bytes 4 n) @ enc @ [0x94])"

definition save_bytes :: "byte list \<Rightarrow> byte list" where
  "save_bytes bs =
     (let n = int (length bs)
      in (if n \<le> 0xFF then 0x43 # le_bytes 1 n
          else if n > 0xFFFFFFFF then 0x8E # le_bytes 8 n
          else 0x42 # le_bytes 4 n) @ bs @ [0x94])"

fun chunks_of :: "nat \<Rightarrow> 'a list \<Rightarrow> 'a list list" where
  "chunks_of (Suc n) (x # xs) = (x # take n xs) # chunks_of (Suc n) (drop n xs)"
| "chunks_of n xs = []"

text \<open>The batches take the items already written, one octet string per list item or
  per key and value.\<close>

definition batch_list :: "byte list list \<Rightarrow> byte list" where
  "batch_list items =
     (case items of
        [] \<Rightarrow> []
      | [x] \<Rightarrow> x @ [0x61]
      | _ \<Rightarrow> concat (map (\<lambda>b. 0x28 # concat b @ [0x65]) (chunks_of 1000 items)))"

definition batch_dict :: "byte list list \<Rightarrow> byte list" where
  "batch_dict items =
     (case items of
        [] \<Rightarrow> []
      | [x] \<Rightarrow> x @ [0x73]
      | _ \<Rightarrow> concat (map (\<lambda>b. 0x28 # concat b @ [0x75])
             (chunks_of 1000 items @ (if length items mod 1000 = 0 then [[]] else []))))"

fun save :: "pyval \<Rightarrow> byte list"
  and save_each :: "pyval list \<Rightarrow> byte list list"
  and save_items :: "(string \<times> pyval) list \<Rightarrow> byte list list"
where
  "save PNone = [0x4E]"
| "save (PBool b) = (if b then [0x88] else [0x89])"
| "save (PInt i) = save_long i"
| "save (PStr s) = save_str s"
| "save (PBytes bs) = save_bytes bs"
| "save (PList xs) = [0x5D, 0x94] @ batch_list (save_each xs)"
| "save (PDict d) = [0x7D, 0x94] @ batch_dict (save_items d)"
| "save_each [] = []"
| "save_each (x # xs) = save x # save_each xs"
| "save_items [] = []"
| "save_items (kv # kvs) = (save_str (fst kv) @ save (snd kv)) # save_items kvs"

definition pickle_dumps :: "pyval \<Rightarrow> byte list" where
  "pickle_dumps v =
     (let body = save v @ [0x2E]
      in [0x80, 0x04] @
         (if length body \<ge> 4 then 0x95 # le_bytes 8 (int (length body)) @ body else body))"

subsection \<open>\<^verbatim>\<open>hashlib.sha256\<close>\<close>

type_synonym w32 = "32 word"

definition rotr :: "nat \<Rightarrow> w32 \<Rightarrow> w32" where
  "rotr n x = drop_bit n x OR push_bit (32 - n) x"

definition K256 :: "w32 list" where
  "K256 =
    [1116352408, 1899447441, 3049323471, 3921009573, 961987163, 1508970993,
     2453635748, 2870763221, 3624381080, 310598401, 607225278, 1426881987,
     1925078388, 2162078206, 2614888103, 3248222580, 3835390401, 4022224774,
     264347078, 604807628, 770255983, 1249150122, 1555081692, 1996064986,
     2554220882, 2821834349, 2952996808, 3210313671, 3336571891, 3584528711,
     113926993, 338241895, 666307205, 773529912, 1294757372, 1396182291,
     1695183700, 1986661051, 2177026350, 2456956037, 2730485921, 2820302411,
     3259730800, 3345764771, 3516065817, 3600352804, 4094571909, 275423344,
     430227734, 506948616, 659060556, 883997877, 958139571, 1322822218,
     1537002063, 1747873779, 1955562222, 2024104815, 2227730452, 2361852424,
     2428436474, 2756734187, 3204031479, 3329325298]"

definition H256 :: "w32 list" where
  "H256 = [1779033703, 3144134277, 1013904242, 2773480762,
           1359893119, 2600822924, 528734635, 1541459225]"

definition ssig0 :: "w32 \<Rightarrow> w32" where "ssig0 x = rotr 7 x XOR rotr 18 x XOR drop_bit 3 x"
definition ssig1 :: "w32 \<Rightarrow> w32" where "ssig1 x = rotr 17 x XOR rotr 19 x XOR drop_bit 10 x"
definition bsig0 :: "w32 \<Rightarrow> w32" where "bsig0 x = rotr 2 x XOR rotr 13 x XOR rotr 22 x"
definition bsig1 :: "w32 \<Rightarrow> w32" where "bsig1 x = rotr 6 x XOR rotr 11 x XOR rotr 25 x"
definition ch :: "w32 \<Rightarrow> w32 \<Rightarrow> w32 \<Rightarrow> w32" where "ch x y z = (x AND y) XOR (NOT x AND z)"
definition maj :: "w32 \<Rightarrow> w32 \<Rightarrow> w32 \<Rightarrow> w32" where
  "maj x y z = (x AND y) XOR (x AND z) XOR (y AND z)"

text \<open>The message schedule is kept newest word first.\<close>

fun schedule :: "nat \<Rightarrow> w32 list \<Rightarrow> w32 list" where
  "schedule 0 ws = ws"
| "schedule (Suc n) ws =
     schedule n ((ssig1 (ws ! 1) + ws ! 6 + ssig0 (ws ! 14) + ws ! 15) # ws)"

fun rounds :: "w32 list \<Rightarrow> w32 list \<Rightarrow> w32 list \<Rightarrow> w32 list" where
  "rounds [a, b, c, d, e, f, g, h] (k # ks) (w # ws) =
     (let t1 = h + bsig1 e + ch e f g + k + w; t2 = bsig0 a + maj a b c
      in rounds [t1 + t2, a, b, c, d + t1, e, f, g] ks ws)"
| "rounds s ks ws = s"

definition compress :: "w32 list \<Rightarrow> w32 list \<Rightarrow> w32 list" where
  "compress hs blk = map2 (+) hs (rounds hs K256 (rev (schedule 48 (rev blk))))"

definition be_bytes :: "nat \<Rightarrow> int \<Rightarrow> byte list" where
  "be_bytes n x = rev (le_bytes n x)"

definition sha256_pad :: "byte list \<Rightarrow> byte list" where
  "sha256_pad m =
     m @ [0x80] @ replicate ((119 - length m mod 64) mod 64) 0 @ be_bytes 8 (8 * int (length m))"

fun be_words :: "byte list \<Rightarrow> w32 list" where
  "be_words (a # b # c # d # rest) =
     (push_bit 24 (ucast a) OR push_bit 16 (ucast b) OR push_bit 8 (ucast c) OR ucast d)
       # be_words rest"
| "be_words rest = []"

definition sha256 :: "byte list \<Rightarrow> w32 list" where
  "sha256 m = foldl compress H256 (chunks_of 16 (be_words (sha256_pad m)))"

definition hex_word :: "w32 \<Rightarrow> string" where
  "hex_word w = concat (map (\<lambda>i. hex2 (uint (drop_bit (8 * i) w) mod 256)) [3, 2, 1, 0])"

text \<open>\<^verbatim>\<open>hashlib.sha256(); h.update(..) ..; h.hexdigest()\<close>: the updates concatenate.\<close>

definition sha256_hexdigest :: "byte list \<Rightarrow> string" where
  "sha256_hexdigest m = concat (map hex_word (sha256 m))"

section \<open>Schema inference (pipeline script, step 3)\<close>

text \<open>
  \<^verbatim>\<open>infer_pg_type(key, value)\<close>: three keys have a fixed type, then the shape of the
  value decides.  \<^verbatim>\<open>isinstance(value, bool)\<close> is tested before the container test.
\<close>

fun is_bool :: "pyval \<Rightarrow> bool" where
  "is_bool (PBool b) = True"
| "is_bool _ = False"

fun is_dict_or_list :: "pyval \<Rightarrow> bool" where
  "is_dict_or_list (PDict d) = True"
| "is_dict_or_list (PList xs) = True"
| "is_dict_or_list _ = False"

definition infer_pg_type :: "string \<Rightarrow> pyval \<Rightarrow> string" where
  "infer_pg_type key v =
     (if key = ''protein_index'' then ''INTEGER NOT NULL''
      else if key = ''pdb_ids'' then ''TEXT[]''
      else if key = ''pdb_files'' then ''BYTEA[]''
      else if is_bool v then ''BOOLEAN''
      else if is_dict_or_list v then ''JSONB''
      else ''VARCHAR(400)'')"

section \<open>Fingerprints\<close>

text \<open>
  \<^verbatim>\<open>hash_protein\<close> exists twice.  Both feed the same sequence of byte strings to one
  SHA-256 object; the function below collects what a loop over the subrecords feeds.
\<close>

definition pdb_update :: "pyval \<Rightarrow> py_error + byte list" where
  "pdb_update pdb =
     ebind (py_getitem pdb ''pdb_id'') (\<lambda>pid.
     ebind (encode_method pid) (\<lambda>a.
     ebind (py_getitem pdb ''content'') (\<lambda>c.
     ebind (bytes_like c) (\<lambda>b. Inr (a @ b)))))"

text \<open>The checker script reads every field with \<^verbatim>\<open>protein[..]\<close>.\<close>

definition hash_input_checker :: "protein \<Rightarrow> py_error + byte list" where
  "hash_input_checker protein =
     ebind (dict_item protein ''gene_id'') (\<lambda>g.
     ebind (encode_method g) (\<lambda>b1.
     ebind (dict_item protein ''transcript_id'') (\<lambda>t.
     ebind (encode_method t) (\<lambda>b2.
     ebind (dict_item protein ''sequence'') (\<lambda>s.
     ebind (encode_method (py_or s (PStr []))) (\<lambda>b3.
     ebind (dict_item protein ''exons'') (\<lambda>x.
     ebind (dict_item protein ''protein_coding'') (\<lambda>pc.
     ebind (dict_item protein ''nmd'') (\<lambda>n.
     ebind (dict_item protein ''pdb_files'') (\<lambda>fs.
     ebind (py_iter fs) (\<lambda>pdbs.
     ebind (emap pdb_update pdbs) (\<lambda>bs.
       Inr (b1 @ b2 @ b3 @ pickle_dumps x @ str_encode (py_str pc) @ str_encode (py_str n)
            @ concat bs)))))))))))))"

definition hash_protein_checker :: "protein \<Rightarrow> py_error + string" where
  "hash_protein_checker protein =
     (case hash_input_checker protein of Inl e \<Rightarrow> Inl e | Inr m \<Rightarrow> Inr (sha256_hexdigest m))"

text \<open>The pipeline script reads four of the fields with \<^verbatim>\<open>protein.get(.., default)\<close>.\<close>

definition hash_input_pipeline :: "protein \<Rightarrow> py_error + byte list" where
  "hash_input_pipeline protein =
     ebind (dict_item protein ''gene_id'') (\<lambda>g.
     ebind (encode_method g) (\<lambda>b1.
     ebind (dict_item protein ''transcript_id'') (\<lambda>t.
     ebind (encode_method t) (\<lambda>b2.
     ebind (dict_item protein ''sequence'') (\<lambda>s.
     ebind (encode_method (py_or s (PStr []))) (\<lambda>b3.
     ebind (py_iter (dict_get protein ''pdb_files'' (PList []))) (\<lambda>pdbs.
     ebind (emap pdb_update pdbs) (\<lambda>bs.
       Inr (b1 @ b2 @ b3 @ pickle_dumps (dict_get protein ''exons'' (PList []))
            @ str_encode (py_str (dict_get protein ''protein_coding'' (PBool False)))
            @ str_encode (py_str (dict_get protein ''nmd'' (PBool False)))
            @ concat bs)))))))))"

definition hash_protein_pipeline :: "protein \<Rightarrow> py_error + string" where
  "hash_protein_pipeline protein =
     (case hash_input_pipeline protein of Inl e \<Rightarrow> Inl e | Inr m \<Rightarrow> Inr (sha256_hexdigest m))"

text \<open>
  \<^verbatim>\<open>proof_compare_pkl\<close> (the same code in both scripts, each over its own
  \<^verbatim>\<open>hash_protein\<close>), on the two unpickled collections: first the lengths, then the
  digests position by position, stopping at the first difference.
\<close>

fun proof_loop ::
  "(protein \<Rightarrow> py_error + string) \<Rightarrow> protein list \<Rightarrow> protein list \<Rightarrow> py_error + bool" where
  "proof_loop h (p1 # d1) (p2 # d2) =
     (case h p1 of Inl e \<Rightarrow> Inl e
      | Inr h1 \<Rightarrow>
          (case h p2 of Inl e \<Rightarrow> Inl e
           | Inr h2 \<Rightarrow> if h1 \<noteq> h2 then Inr False else proof_loop h d1 d2))"
| "proof_loop h d1 d2 = Inr True"

definition proof_compare_pkl_checker :: "protein list \<Rightarrow> protein list \<Rightarrow> py_error + bool" where
  "proof_compare_pkl_checker data1 data2 =
     (if length data1 \<noteq> length data2 then Inr False
      else proof_loop hash_protein_checker data1 data2)"


section \<open>The checker's set and field checks\<close>

text \<open>
  \<^verbatim>\<open>index_by_key\<close> builds a dict keyed by the pair (gene_id, transcript_id).  A pair
  is a dict key only when both parts are hashable; two keys are the same key when
  they are equal in Python's sense; storing under a key already present replaces the
  value and keeps the key's place in the iteration order.
\<close>

type_synonym idkey = "pyval \<times> pyval"

fun hashable :: "pyval \<Rightarrow> bool" where
  "hashable (PList xs) = False"
| "hashable (PDict d) = False"
| "hashable v = True"

definition key_eq :: "idkey \<Rightarrow> idkey \<Rightarrow> bool" where
  "key_eq a b = (py_eq (fst a) (fst b) \<and> py_eq (snd a) (snd b))"

fun kd_set :: "(idkey \<times> protein) list \<Rightarrow> idkey \<Rightarrow> protein \<Rightarrow> (idkey \<times> protein) list" where
  "kd_set [] k p = [(k, p)]"
| "kd_set (e # d) k p = (if key_eq (fst e) k then (fst e, p) # d else e # kd_set d k p)"

fun kd_lookup :: "(idkey \<times> protein) list \<Rightarrow> idkey \<Rightarrow> protein option" where
  "kd_lookup [] k = None"
| "kd_lookup (e # d) k = (if key_eq (fst e) k then Some (snd e) else kd_lookup d k)"

definition protein_key :: "protein \<Rightarrow> py_error + idkey" where
  "protein_key p =
     ebind (dict_item p ''gene_id'') (\<lambda>g.
     ebind (dict_item p ''transcript_id'') (\<lambda>t.
       if hashable g \<and> hashable t then Inr (g, t) else Inl TypeError))"

fun index_from :: "(idkey \<times> protein) list \<Rightarrow> protein list \<Rightarrow> py_error + (idkey \<times> protein) list"
where
  "index_from acc [] = Inr acc"
| "index_from acc (p # ps) =
     (case protein_key p of Inl e \<Rightarrow> Inl e | Inr k \<Rightarrow> index_from (kd_set acc k p) ps)"

definition index_by_key :: "protein list \<Rightarrow> py_error + (idkey \<times> protein) list" where
  "index_by_key data = index_from [] data"

text \<open>\<^verbatim>\<open>set(a.keys()) != set(b.keys())\<close>\<close>

definition key_sets_differ :: "(idkey \<times> protein) list \<Rightarrow> (idkey \<times> protein) list \<Rightarrow> bool" where
  "key_sets_differ m1 m2 =
     (\<not> (list_all (\<lambda>e. list_ex (\<lambda>e'. key_eq (fst e') (fst e)) m2) m1
         \<and> list_all (\<lambda>e. list_ex (\<lambda>e'. key_eq (fst e') (fst e)) m1) m2))"

text \<open>The loop over the four top-level fields; \<open>Inr True\<close> is "no difference found".\<close>

fun fields_match :: "protein \<Rightarrow> protein \<Rightarrow> string list \<Rightarrow> py_error + bool" where
  "fields_match inp out [] = Inr True"
| "fields_match inp out (f # fs) =
     (case dict_item inp f of Inl e \<Rightarrow> Inl e
      | Inr a \<Rightarrow>
          (case dict_item out f of Inl e \<Rightarrow> Inl e
           | Inr b \<Rightarrow> if \<not> py_eq a b then Inr False else fields_match inp out fs))"

text \<open>The loop over \<^verbatim>\<open>zip(inp["pdb_files"], out["pdb_files"])\<close>.\<close>

fun pdbs_match :: "pyval list \<Rightarrow> pyval list \<Rightarrow> py_error + bool" where
  "pdbs_match (p1 # r1) (p2 # r2) =
     (case py_getitem p1 ''pdb_id'' of Inl e \<Rightarrow> Inl e
      | Inr i1 \<Rightarrow>
     (case py_getitem p2 ''pdb_id'' of Inl e \<Rightarrow> Inl e
      | Inr i2 \<Rightarrow>
     if \<not> py_eq i1 i2 then Inr False
     else
     (case py_getitem p1 ''content'' of Inl e \<Rightarrow> Inl e
      | Inr c1 \<Rightarrow>
     (case py_getitem p2 ''content'' of Inl e \<Rightarrow> Inl e
      | Inr c2 \<Rightarrow>
     if \<not> py_eq c1 c2 then Inr False else pdbs_match r1 r2))))"
| "pdbs_match r1 r2 = Inr True"

text \<open>The body of the loop over the keys, for one pair of records.\<close>

definition protein_matches :: "protein \<Rightarrow> protein \<Rightarrow> py_error + bool" where
  "protein_matches inp out =
     ebind (fields_match inp out [''sequence'', ''exons'', ''protein_coding'', ''nmd'']) (\<lambda>ok.
     if \<not> ok then Inr False
     else
     ebind (dict_item inp ''pdb_files'') (\<lambda>f1.
     ebind (py_len f1) (\<lambda>n1.
     ebind (dict_item out ''pdb_files'') (\<lambda>f2.
     ebind (py_len f2) (\<lambda>n2.
     if n1 \<noteq> n2 then Inr False
     else
     ebind (py_iter f1) (\<lambda>l1.
     ebind (py_iter f2) (\<lambda>l2. pdbs_match l1 l2)))))))"

fun keys_loop :: "(idkey \<times> protein) list \<Rightarrow> (idkey \<times> protein) list \<Rightarrow> py_error + bool" where
  "keys_loop [] out_map = Inr True"
| "keys_loop (e # in_rest) out_map =
     (case kd_lookup out_map (fst e) of
        None \<Rightarrow> Inl (KeyError ''key'')
      | Some out \<Rightarrow>
          (case protein_matches (snd e) out of Inl err \<Rightarrow> Inl err
           | Inr ok \<Rightarrow> if \<not> ok then Inr False else keys_loop in_rest out_map))"

definition compare_proteins :: "protein list \<Rightarrow> protein list \<Rightarrow> py_error + bool" where
  "compare_proteins input_data output_data =
     ebind (index_by_key input_data) (\<lambda>in_map.
     ebind (index_by_key output_data) (\<lambda>out_map.
     if key_sets_differ in_map out_map then Inr False else keys_loop in_map out_map))"

text \<open>\<^verbatim>\<open>compare_pkl_files\<close> repeats the body of \<^verbatim>\<open>compare_proteins\<close> on the two
  unpickled files.\<close>

definition compare_pkl_files :: "protein list \<Rightarrow> protein list \<Rightarrow> py_error + bool" where
  "compare_pkl_files data1 data2 =
     ebind (index_by_key data1) (\<lambda>map1.
     ebind (index_by_key data2) (\<lambda>map2.
     if key_sets_differ map1 map2 then Inr False else keys_loop map1 map2))"

section \<open>JSON encoding (pipeline script, "JSON safety util")\<close>

definition b64_char :: "int \<Rightarrow> char" where
  "b64_char n =
     ''ABCDEFGHIJKLMNOPQRSTUVWXYZabcdefghijklmnopqrstuvwxyz0123456789+/'' ! nat (n mod 64)"

fun b64encode :: "byte list \<Rightarrow> string" where
  "b64encode (a # b # c # rest) =
     (let n = uint a * 65536 + uint b * 256 + uint c
      in [b64_char (n div 262144), b64_char (n div 4096), b64_char (n div 64), b64_char n])
     @ b64encode rest"
| "b64encode [a, b] =
     (let n = uint a * 65536 + uint b * 256
      in [b64_char (n div 262144), b64_char (n div 4096), b64_char (n div 64), CHR ''=''])"
| "b64encode [a] =
     (let n = uint a * 65536
      in [b64_char (n div 262144), b64_char (n div 4096), CHR ''='', CHR ''=''])"
| "b64encode [] = []"

text \<open>\<^verbatim>\<open>make_json_safe(obj)\<close>: bytes become a tagged dict, dicts and lists are rebuilt
  around their converted members, everything else is returned as it is.\<close>

fun make_json_safe :: "pyval \<Rightarrow> pyval"
  and make_json_safe_list :: "pyval list \<Rightarrow> pyval list"
  and make_json_safe_items :: "(string \<times> pyval) list \<Rightarrow> (string \<times> pyval) list"
where
  "make_json_safe (PBytes bs) =
     PDict [(''__type__'', PStr ''bytes''), (''encoding'', PStr ''base64''),
            (''data'', PStr (b64encode bs))]"
| "make_json_safe (PDict d) = PDict (make_json_safe_items d)"
| "make_json_safe (PList xs) = PList (make_json_safe_list xs)"
| "make_json_safe PNone = PNone"
| "make_json_safe (PBool b) = PBool b"
| "make_json_safe (PInt i) = PInt i"
| "make_json_safe (PStr s) = PStr s"
| "make_json_safe_list [] = []"
| "make_json_safe_list (x # xs) = make_json_safe x # make_json_safe_list xs"
| "make_json_safe_items [] = []"
| "make_json_safe_items (kv # kvs) = (fst kv, make_json_safe (snd kv)) # make_json_safe_items kvs"

text \<open>
  \<^verbatim>\<open>json.dumps\<close> writes a JSON text and the driver's \<^verbatim>\<open>json.loads\<close> reads one.  The
  text is kept as the document it denotes; bytes have no JSON form.
\<close>

datatype json =
    JNull
  | JBool bool
  | JNum int
  | JStr string
  | JArr "json list"
  | JObj "(string \<times> json) list"

fun json_dumps :: "pyval \<Rightarrow> py_error + json"
  and json_dumps_list :: "pyval list \<Rightarrow> py_error + json list"
  and json_dumps_items :: "(string \<times> pyval) list \<Rightarrow> py_error + (string \<times> json) list"
where
  "json_dumps PNone = Inr JNull"
| "json_dumps (PBool b) = Inr (JBool b)"
| "json_dumps (PInt i) = Inr (JNum i)"
| "json_dumps (PStr s) = Inr (JStr s)"
| "json_dumps (PBytes bs) = Inl TypeError"
| "json_dumps (PList xs) =
     (case json_dumps_list xs of Inl e \<Rightarrow> Inl e | Inr js \<Rightarrow> Inr (JArr js))"
| "json_dumps (PDict d) =
     (case json_dumps_items d of Inl e \<Rightarrow> Inl e | Inr js \<Rightarrow> Inr (JObj js))"
| "json_dumps_list [] = Inr []"
| "json_dumps_list (x # xs) =
     (case json_dumps x of Inl e \<Rightarrow> Inl e
      | Inr j \<Rightarrow> (case json_dumps_list xs of Inl e \<Rightarrow> Inl e | Inr js \<Rightarrow> Inr (j # js)))"
| "json_dumps_items [] = Inr []"
| "json_dumps_items (kv # kvs) =
     (case json_dumps (snd kv) of Inl e \<Rightarrow> Inl e
      | Inr j \<Rightarrow>
          (case json_dumps_items kvs of Inl e \<Rightarrow> Inl e | Inr js \<Rightarrow> Inr ((fst kv, j) # js)))"

fun json_loads :: "json \<Rightarrow> pyval"
  and json_loads_list :: "json list \<Rightarrow> pyval list"
  and json_loads_items :: "(string \<times> json) list \<Rightarrow> (string \<times> pyval) list"
where
  "json_loads JNull = PNone"
| "json_loads (JBool b) = PBool b"
| "json_loads (JNum i) = PInt i"
| "json_loads (JStr s) = PStr s"
| "json_loads (JArr js) = PList (json_loads_list js)"
| "json_loads (JObj kvs) = PDict (json_loads_items kvs)"
| "json_loads_list [] = []"
| "json_loads_list (j # js) = json_loads j # json_loads_list js"
| "json_loads_items [] = []"
| "json_loads_items (kv # kvs) = (fst kv, json_loads (snd kv)) # json_loads_items kvs"

section \<open>The table\<close>

text \<open>
  The PostgreSQL table the pipeline creates and fills, with what the driver and the
  server do to one bound parameter of each kind.  A column has a name, the type text
  \<^verbatim>\<open>infer_pg_type\<close> chose and a NOT NULL flag; a row gives every column a cell.

  What a column does with a value of the shape its type was inferred from is
  modelled: NULL for \<^verbatim>\<open>None\<close>, a boolean in BOOLEAN, a JSON text in JSONB, a string, an
  integer or a boolean in VARCHAR(400) (the last two as their SQL text), lists of
  strings in TEXT[], lists of \<^verbatim>\<open>Binary(bytes)\<close> in BYTEA[].  A parameter of any other
  shape is a DatatypeMismatch here, although PostgreSQL would still read some of them
  through its own cast rules; no property below rests on such a rejection.
\<close>

datatype cell =
    CNull
  | CInt int
  | CBool bool
  | CText string
  | CJson json
  | CTextArr "string list"
  | CByteaArr "byte list list"

text \<open>What \<^verbatim>\<open>row_dict\<close> holds: a Python value, the text \<^verbatim>\<open>json.dumps\<close> returned, or a
  list of \<^verbatim>\<open>psycopg2.Binary\<close> wrappers.\<close>

datatype param =
    Plain pyval
  | JsonText json
  | Binaries "pyval list"

type_synonym row = "(string \<times> cell) list"

record pg_table =
  tbl_columns :: "(string \<times> string \<times> bool) list"
  tbl_rows :: "row list"

text \<open>jsonb keeps one value per object key (the last) and orders the keys by byte
  length, then bytewise; it cannot hold the code point 0 in a string.\<close>

fun bytes_less :: "byte list \<Rightarrow> byte list \<Rightarrow> bool" where
  "bytes_less (x # xs) (y # ys) = (x < y \<or> (x = y \<and> bytes_less xs ys))"
| "bytes_less [] (y # ys) = True"
| "bytes_less xs [] = False"

definition jsonb_key_less :: "string \<Rightarrow> string \<Rightarrow> bool" where
  "jsonb_key_less a b =
     (let x = str_encode a; y = str_encode b
      in length x < length y \<or> (length x = length y \<and> bytes_less x y))"

fun jsonb_add :: "string \<Rightarrow> json \<Rightarrow> (string \<times> json) list \<Rightarrow> (string \<times> json) list" where
  "jsonb_add k v [] = [(k, v)]"
| "jsonb_add k v (e # es) =
     (if fst e = k then e # es
      else if jsonb_key_less k (fst e) then (k, v) # e # es
      else e # jsonb_add k v es)"

fun jsonb_in :: "json \<Rightarrow> json"
  and jsonb_in_list :: "json list \<Rightarrow> json list"
  and jsonb_in_items :: "(string \<times> json) list \<Rightarrow> (string \<times> json) list"
where
  "jsonb_in JNull = JNull"
| "jsonb_in (JBool b) = JBool b"
| "jsonb_in (JNum i) = JNum i"
| "jsonb_in (JStr s) = JStr s"
| "jsonb_in (JArr js) = JArr (jsonb_in_list js)"
| "jsonb_in (JObj kvs) = JObj (jsonb_in_items kvs)"
| "jsonb_in_list [] = []"
| "jsonb_in_list (j # js) = jsonb_in j # jsonb_in_list js"
| "jsonb_in_items [] = []"
| "jsonb_in_items (kv # kvs) = jsonb_add (fst kv) (jsonb_in (snd kv)) (jsonb_in_items kvs)"

definition has_nul :: "string \<Rightarrow> bool" where
  "has_nul s = (CHR 0x00 \<in> set s)"

fun json_has_nul :: "json \<Rightarrow> bool"
  and json_has_nul_list :: "json list \<Rightarrow> bool"
  and json_has_nul_items :: "(string \<times> json) list \<Rightarrow> bool"
where
  "json_has_nul JNull = False"
| "json_has_nul (JBool b) = False"
| "json_has_nul (JNum i) = False"
| "json_has_nul (JStr s) = has_nul s"
| "json_has_nul (JArr js) = json_has_nul_list js"
| "json_has_nul (JObj kvs) = json_has_nul_items kvs"
| "json_has_nul_list [] = False"
| "json_has_nul_list (j # js) = (json_has_nul j \<or> json_has_nul_list js)"
| "json_has_nul_items [] = False"
| "json_has_nul_items (kv # kvs) =
     (has_nul (fst kv) \<or> json_has_nul (snd kv) \<or> json_has_nul_items kvs)"

text \<open>VARCHAR(400) takes at most 400 characters; longer text is cut to 400 when all
  that is cut are spaces and is an error otherwise.\<close>

definition varchar400 :: "string \<Rightarrow> string \<Rightarrow> py_error + cell" where
  "varchar400 col s =
     (if has_nul s then Inl (DatatypeMismatch col)
      else if length s \<le> 400 then Inr (CText s)
      else if set (drop 400 s) \<subseteq> {CHR '' ''} then Inr (CText (take 400 s))
      else Inl (StringDataRightTruncation col))"

fun as_text :: "pyval \<Rightarrow> string option" where
  "as_text (PStr s) = (if has_nul s then None else Some s)"
| "as_text v = None"

fun as_binary :: "pyval \<Rightarrow> byte list option" where
  "as_binary (PBytes bs) = Some bs"
| "as_binary v = None"

definition all_some :: "'a option list \<Rightarrow> 'a list option" where
  "all_some xs = (if None \<in> set xs then None else Some (map the xs))"

definition pg_cast :: "string \<Rightarrow> string \<Rightarrow> param \<Rightarrow> py_error + cell" where
  "pg_cast col ty prm =
     (case prm of
        Plain PNone \<Rightarrow> Inr CNull
      | Plain (PInt i) \<Rightarrow>
          (if ty = ''INTEGER NOT NULL'' \<and> - 0x80000000 \<le> i \<and> i \<le> 0x7FFFFFFF then Inr (CInt i)
           else if ty = ''VARCHAR(400)'' then varchar400 col (show_int i)
           else Inl (DatatypeMismatch col))
      | Plain (PBool b) \<Rightarrow>
          (if ty = ''BOOLEAN'' then Inr (CBool b)
           else if ty = ''VARCHAR(400)'' then Inr (CText (if b then ''true'' else ''false''))
           else Inl (DatatypeMismatch col))
      | Plain (PStr s) \<Rightarrow>
          (if ty = ''VARCHAR(400)'' then varchar400 col s else Inl (DatatypeMismatch col))
      | Plain (PList xs) \<Rightarrow>
          (if ty = ''TEXT[]'' then
             (case all_some (map as_text xs) of
                None \<Rightarrow> Inl (DatatypeMismatch col) | Some ids \<Rightarrow> Inr (CTextArr ids))
           else Inl (DatatypeMismatch col))
      | Plain v \<Rightarrow> Inl (DatatypeMismatch col)
      | JsonText j \<Rightarrow>
          (if ty = ''JSONB'' \<and> \<not> json_has_nul j then Inr (CJson (jsonb_in j))
           else Inl (DatatypeMismatch col))
      | Binaries xs \<Rightarrow>
          (case all_some (map as_binary xs) of
             None \<Rightarrow> Inl TypeError
           | Some bs \<Rightarrow>
               if ty = ''BYTEA[]'' then Inr (CByteaArr bs) else Inl (DatatypeMismatch col)))"

text \<open>What the driver hands back for a cell.\<close>

fun cell_value :: "cell \<Rightarrow> pyval" where
  "cell_value CNull = PNone"
| "cell_value (CInt i) = PInt i"
| "cell_value (CBool b) = PBool b"
| "cell_value (CText s) = PStr s"
| "cell_value (CJson j) = json_loads j"
| "cell_value (CTextArr ids) = PList (map PStr ids)"
| "cell_value (CByteaArr bs) = PList (map PBytes bs)"

subsection \<open>Step 3: the CREATE TABLE statement\<close>

definition other_columns_of :: "protein \<Rightarrow> string list" where
  "other_columns_of first_entry = filter (\<lambda>k. k \<noteq> ''pdb_files'') (map fst first_entry)"

definition columns_of :: "string list \<Rightarrow> string list" where
  "columns_of other_columns = [''protein_index''] @ other_columns @ [''pdb_ids'', ''pdb_files'']"

definition col_defs :: "protein \<Rightarrow> (string \<times> string \<times> bool) list" where
  "col_defs first_entry =
     map (\<lambda>col. (col, infer_pg_type col (dict_get first_entry col PNone),
                 col \<in> set [''gene_id'', ''transcript_id'', ''protein_index'']))
       (columns_of (other_columns_of first_entry))"

text \<open>\<^verbatim>\<open>CREATE TABLE IF NOT EXISTS\<close> with \<^verbatim>\<open>PRIMARY KEY (gene_id, transcript_id)\<close>: an
  existing table is left as it is; a new one needs distinct column names and both
  key columns.\<close>

definition create_table ::
  "pg_table option \<Rightarrow> (string \<times> string \<times> bool) list \<Rightarrow> py_error + pg_table" where
  "create_table existing defs =
     (case existing of
        Some t \<Rightarrow> Inr t
      | None \<Rightarrow>
          if \<not> distinct (map fst defs) then Inl (DuplicateColumn ''create'')
          else if ''gene_id'' \<notin> set (map fst defs) then Inl (UndefinedColumn ''gene_id'')
          else if ''transcript_id'' \<notin> set (map fst defs)
            then Inl (UndefinedColumn ''transcript_id'')
          else Inr \<lparr>tbl_columns = defs, tbl_rows = []\<rparr>)"

subsection \<open>Step 4: \<^verbatim>\<open>insert_proteins_with_pdbs\<close>\<close>

text \<open>The body of the loop up to \<^verbatim>\<open>cur.execute\<close>: \<^verbatim>\<open>row_dict\<close> for the record at
  position \<open>idx\<close>.  Assigning to a key a dict already has replaces the value.\<close>

definition dict_set :: "(string \<times> 'v) list \<Rightarrow> string \<Rightarrow> 'v \<Rightarrow> (string \<times> 'v) list" where
  "dict_set d k v = (if k \<in> set (map fst d) then map (\<lambda>e. if fst e = k then (k, v) else e) d
                     else d @ [(k, v)])"

text \<open>The two branches of the loop over \<^verbatim>\<open>other_columns\<close>: a dict or a list is
  stored as \<^verbatim>\<open>json.dumps(make_json_safe(value))\<close>, anything else as it is.\<close>

definition encode_field :: "pyval \<Rightarrow> py_error + param" where
  "encode_field v =
     (if is_dict_or_list v then
        (case json_dumps (make_json_safe v) of Inl e \<Rightarrow> Inl e | Inr j \<Rightarrow> Inr (JsonText j))
      else Inr (Plain v))"

fun fill_other ::
  "protein \<Rightarrow> string list \<Rightarrow> (string \<times> param) list \<Rightarrow> py_error + (string \<times> param) list" where
  "fill_other entry [] row_dict = Inr row_dict"
| "fill_other entry (key # keys) row_dict =
     (case encode_field (dict_get entry key PNone) of
        Inl e \<Rightarrow> Inl e
      | Inr prm \<Rightarrow> fill_other entry keys (dict_set row_dict key prm))"

definition make_row_dict ::
  "string list \<Rightarrow> nat \<Rightarrow> protein \<Rightarrow> py_error + (string \<times> param) list" where
  "make_row_dict other_columns idx entry =
     ebind (fill_other entry other_columns [(''protein_index'', Plain (PInt (int idx)))])
       (\<lambda>d1.
     ebind (py_iter (dict_get entry ''pdb_files'' (PList []))) (\<lambda>ps.
     ebind (emap (\<lambda>p. py_getitem p ''pdb_id'') ps) (\<lambda>ids.
     ebind (py_iter (dict_get entry ''pdb_files'' (PList []))) (\<lambda>ps'.
     ebind (emap (\<lambda>p. py_getitem p ''content'') ps') (\<lambda>cs.
       Inr (dict_set (dict_set d1 ''pdb_ids'' (Plain (PList ids))) ''pdb_files'' (Binaries cs)))))))"

text \<open>\<^verbatim>\<open>len(row_dict["pdb_files"])\<close>\<close>

definition binaries_len :: "(string \<times> param) list \<Rightarrow> nat" where
  "binaries_len row_dict =
     (case map_of row_dict ''pdb_files'' of Some (Binaries cs) \<Rightarrow> length cs | _ \<Rightarrow> 0)"

text \<open>
  \<^verbatim>\<open>INSERT INTO t (columns) VALUES (..) ON CONFLICT (gene_id, transcript_id) DO NOTHING\<close>
  with the named parameters taken from \<^verbatim>\<open>row_dict\<close>.  The new row is built and checked
  first; a row whose key pair is already in the table is then dropped without error.
\<close>

fun new_row ::
  "string list \<Rightarrow> (string \<times> param) list \<Rightarrow> (string \<times> string \<times> bool) list \<Rightarrow> py_error + row"
where
  "new_row columns row_dict [] = Inr []"
| "new_row columns row_dict (cd # cds) =
     (case (if fst cd \<in> set columns
            then (case map_of row_dict (fst cd) of
                    None \<Rightarrow> Inl (KeyError (fst cd))
                  | Some prm \<Rightarrow> pg_cast (fst cd) (fst (snd cd)) prm)
            else Inr CNull) of
        Inl e \<Rightarrow> Inl e
      | Inr c \<Rightarrow>
          if c = CNull \<and> snd (snd cd) then Inl (NotNullViolation (fst cd))
          else (case new_row columns row_dict cds of
                  Inl e \<Rightarrow> Inl e
                | Inr cs \<Rightarrow> Inr ((fst cd, c) # cs)))"


definition row_key :: "row \<Rightarrow> cell option \<times> cell option" where
  "row_key r = (map_of r ''gene_id'', map_of r ''transcript_id'')"

definition execute_insert ::
  "pg_table \<Rightarrow> string list \<Rightarrow> (string \<times> param) list \<Rightarrow> py_error + pg_table" where
  "execute_insert t columns row_dict =
     (let names = map fst (tbl_columns t)
      in if \<not> distinct columns then Inl (DuplicateColumn ''insert'')
         else if \<not> set columns \<subseteq> set names then Inl (UndefinedColumn ''insert'')
         else if \<not> {''gene_id'', ''transcript_id''} \<subseteq> set names
           then Inl (UndefinedColumn ''on conflict'')
         else (case new_row columns row_dict (tbl_columns t) of
                 Inl e \<Rightarrow> Inl e
               | Inr r \<Rightarrow>
                   if row_key r \<in> set (map row_key (tbl_rows t)) then Inr t
                   else Inr (t\<lparr>tbl_rows := tbl_rows t @ [r]\<rparr>)))"

text \<open>The loop over \<^verbatim>\<open>enumerate(data)\<close>, carrying the open transaction's table and
  \<^verbatim>\<open>total_pdbs\<close>.\<close>

fun insert_loop ::
  "string list \<Rightarrow> nat \<Rightarrow> protein list \<Rightarrow> pg_table \<Rightarrow> nat \<Rightarrow> py_error + pg_table \<times> nat" where
  "insert_loop other_columns idx [] t total_pdbs = Inr (t, total_pdbs)"
| "insert_loop other_columns idx (entry # rest) t total_pdbs =
     (case make_row_dict other_columns idx entry of
        Inl e \<Rightarrow> Inl e
      | Inr row_dict \<Rightarrow>
          (case execute_insert t (columns_of other_columns) row_dict of
             Inl e \<Rightarrow> Inl e
           | Inr t' \<Rightarrow>
               insert_loop other_columns (Suc idx) rest t' (total_pdbs + binaries_len row_dict)))"

text \<open>
  What a call leaves behind: the committed table, the two numbers of the printed
  message and the value returned.  The function has no \<^verbatim>\<open>return\<close> statement.  An
  exception leaves the loop before \<^verbatim>\<open>conn.commit()\<close>; the connection is closed and
  the table keeps its rows.
\<close>

record insert_outcome =
  committed :: pg_table
  printed_proteins :: nat
  printed_pdbs :: nat
  returned :: pyval

definition insert_proteins_with_pdbs ::
  "pg_table \<Rightarrow> string list \<Rightarrow> protein list \<Rightarrow> py_error + insert_outcome" where
  "insert_proteins_with_pdbs t other_columns data =
     (case insert_loop other_columns 0 data t 0 of
        Inl e \<Rightarrow> Inl e
      | Inr (t', total_pdbs) \<Rightarrow>
          Inr \<lparr>committed = t', printed_proteins = length data, printed_pdbs = total_pdbs,
               returned = PNone\<rparr>)"

subsection \<open>Step 6: \<^verbatim>\<open>export_table_to_pkl\<close>\<close>

text \<open>\<^verbatim>\<open>SELECT * FROM t ORDER BY protein_index\<close> as the data frame's rows.  Rows with
  the same position stay in storage order.\<close>

definition position_of :: "row \<Rightarrow> int" where
  "position_of r = (case map_of r ''protein_index'' of Some (CInt i) \<Rightarrow> i | _ \<Rightarrow> 0)"

definition read_sql_ordered :: "pg_table \<Rightarrow> py_error + (string \<times> pyval) list list" where
  "read_sql_ordered t =
     (if ''protein_index'' \<notin> set (map fst (tbl_columns t)) then Inl (UndefinedColumn ''order by'')
      else Inr (map (map (\<lambda>c. (fst c, cell_value (snd c)))) (sort_key position_of (tbl_rows t))))"

text \<open>\<^verbatim>\<open>bytes(pb)\<close>\<close>

fun byte_of :: "pyval \<Rightarrow> byte option" where
  "byte_of (PInt i) = (if 0 \<le> i \<and> i < 256 then Some (of_int i) else None)"
| "byte_of (PBool b) = Some (if b then 1 else 0)"
| "byte_of v = None"

fun py_bytes :: "pyval \<Rightarrow> py_error + byte list" where
  "py_bytes (PBytes bs) = Inr bs"
| "py_bytes (PInt n) = (if n < 0 then Inl TypeError else Inr (replicate (nat n) 0))"
| "py_bytes (PBool b) = Inr (replicate (if b then 1 else 0) 0)"
| "py_bytes (PList xs) =
     (case all_some (map byte_of xs) of None \<Rightarrow> Inl TypeError | Some bs \<Rightarrow> Inr bs)"
| "py_bytes (PDict d) = (if d = [] then Inr [] else Inl TypeError)"
| "py_bytes v = Inl TypeError"

text \<open>The list comprehension over \<^verbatim>\<open>zip(row["pdb_ids"] or [], row["pdb_files"] or [])\<close>.
  \<^verbatim>\<open>zip\<close> stops with the shorter of the two.\<close>

definition rezip :: "pyval \<Rightarrow> pyval \<Rightarrow> py_error + pyval" where
  "rezip ids files =
     ebind (py_iter (py_or ids (PList []))) (\<lambda>pids.
     ebind (py_iter (py_or files (PList []))) (\<lambda>pbs.
     ebind (emap (\<lambda>pr. case py_bytes (snd pr) of Inl e \<Rightarrow> Inl e
                         | Inr b \<Rightarrow> Inr (PDict [(''pdb_id'', fst pr), (''content'', PBytes b)]))
              (zip pids pbs)) (\<lambda>pdbs. Inr (PList pdbs))))"

fun export_entry ::
  "(string \<times> pyval) list \<Rightarrow> string list \<Rightarrow> protein \<Rightarrow> py_error + protein" where
  "export_entry row [] protein_entry = Inr protein_entry"
| "export_entry row (key # keys) protein_entry =
     (if key = ''pdb_files'' then
        (case dict_item row ''pdb_ids'' of Inl e \<Rightarrow> Inl e
         | Inr ids \<Rightarrow>
        (case dict_item row ''pdb_files'' of Inl e \<Rightarrow> Inl e
         | Inr files \<Rightarrow>
        (case rezip ids files of Inl e \<Rightarrow> Inl e
         | Inr v \<Rightarrow> export_entry row keys (dict_set protein_entry ''pdb_files'' v))))
      else
        (case dict_item row key of Inl e \<Rightarrow> Inl e
         | Inr v \<Rightarrow> export_entry row keys (dict_set protein_entry key v)))"

definition export_table_to_pkl :: "pg_table \<Rightarrow> string list \<Rightarrow> py_error + protein list" where
  "export_table_to_pkl t original_key_order =
     ebind (read_sql_ordered t) (\<lambda>df.
     emap (\<lambda>row. export_entry row original_key_order []) df)"

subsection \<open>The filter script's \<^verbatim>\<open>rows_to_pkl\<close>\<close>




subsection \<open>The script from load to export\<close>

text \<open>Steps 1 to 6 on a database that has no table yet: the column list comes from
  \<^verbatim>\<open>data[0]\<close>, the table is created, filled and read back in the first record's key
  order.\<close>

definition pipeline_roundtrip :: "protein list \<Rightarrow> py_error + protein list" where
  "pipeline_roundtrip data =
     (case data of
        [] \<Rightarrow> Inl IndexError
      | first_entry # rest \<Rightarrow>
          ebind (create_table None (col_defs first_entry)) (\<lambda>t.
          ebind (insert_proteins_with_pdbs t (other_columns_of first_entry) data) (\<lambda>out.
          export_table_to_pkl (committed out) (map fst first_entry))))"


section \<open>Values a column gives back unchanged\<close>











text \<open>\<^verbatim>\<open>has_key k p\<close>: the record \<open>p\<close> is indexed under a key equal to \<open>k\<close>.\<close>

definition has_key :: "idkey \<Rightarrow> protein \<Rightarrow> bool" where
  "has_key k p = (case protein_key p of Inl e \<Rightarrow> False | Inr k' \<Rightarrow> key_eq k' k)"

definition hkey :: "idkey \<Rightarrow> bool" where
  "hkey k = (hashable (fst k) \<and> hashable (snd k))"

section \<open>Sample data\<close>

text \<open>Record A has the key (G1, T1) and two subrecords, record B the key (G1, T2) and
  none.\<close>

definition scenario_A :: protein where
  "scenario_A =
     [(''gene_id'', PStr ''G1''), (''transcript_id'', PStr ''T1''), (''sequence'', PStr ''MKV''),
      (''exons'', PList [PList [PInt 1, PInt 20]]), (''protein_coding'', PBool True),
      (''nmd'', PBool False),
      (''pdb_files'',
       PList [PDict [(''pdb_id'', PStr ''1ABC''), (''content'', PBytes [0x00, 0x01])],
              PDict [(''pdb_id'', PStr ''1XYZ''), (''content'', PBytes [0xFF])]])]"

definition scenario_B :: protein where
  "scenario_B =
     [(''gene_id'', PStr ''G1''), (''transcript_id'', PStr ''T2''), (''sequence'', PStr ''MA''),
      (''exons'', PList []), (''protein_coding'', PBool True), (''nmd'', PBool False),
      (''pdb_files'', PList [])]"

text \<open>The table step 3 creates for record A, still empty.\<close>

definition scenario_table :: pg_table where
  "scenario_table = \<lparr>tbl_columns = col_defs scenario_A, tbl_rows = []\<rparr>"


text \<open>Record A again with another sequence.\<close>

definition scenario_A2 :: protein where
  "scenario_A2 =
     [(''gene_id'', PStr ''G1''), (''transcript_id'', PStr ''T1''), (''sequence'', PStr ''MKVL''),
      (''exons'', PList [PList [PInt 1, PInt 20]]), (''protein_coding'', PBool True),
      (''nmd'', PBool False),
      (''pdb_files'',
       PList [PDict [(''pdb_id'', PStr ''1ABC''), (''content'', PBytes [0x00, 0x01])],
              PDict [(''pdb_id'', PStr ''1XYZ''), (''content'', PBytes [0xFF])]])]"

text \<open>Two records that differ in both key parts and in nothing else.\<close>

definition joined_AB_C :: protein where
  "joined_AB_C =
     [(''gene_id'', PStr ''AB''), (''transcript_id'', PStr ''C''), (''sequence'', PStr ''MKV''),
      (''exons'', PList []), (''protein_coding'', PBool True), (''nmd'', PBool False),
      (''pdb_files'', PList [])]"

definition joined_A_BC :: protein where
  "joined_A_BC =
     [(''gene_id'', PStr ''A''), (''transcript_id'', PStr ''BC''), (''sequence'', PStr ''MKV''),
      (''exons'', PList []), (''protein_coding'', PBool True), (''nmd'', PBool False),
      (''pdb_files'', PList [])]"

text \<open>A record with raw bytes inside a structured field.\<close>

definition blob_record :: protein where
  "blob_record =
     [(''gene_id'', PStr ''G1''), (''transcript_id'', PStr ''T1''), (''sequence'', PStr ''MKV''),
      (''exons'', PList []), (''protein_coding'', PBool True), (''nmd'', PBool False),
      (''meta'', PDict [(''raw'', PBytes [0x00, 0x01])]),
      (''pdb_files'', PList [])]"

definition blob_record_exported :: protein where
  "blob_record_exported =
     [(''gene_id'', PStr ''G1''), (''transcript_id'', PStr ''T1''), (''sequence'', PStr ''MKV''),
      (''exons'', PList []), (''protein_coding'', PBool True), (''nmd'', PBool False),
      (''meta'', PDict [(''raw'', PDict [(''data'', PStr ''AAE=''), (''__type__'', PStr ''bytes''),
                                       (''encoding'', PStr ''base64'')])]),
      (''pdb_files'', PList [])]"



section \<open>Properties\<close>

subsection \<open>Helper facts\<close>

lemma dict_item_get: "map_of d k = Some v \<Longrightarrow> dict_item d k = Inr v \<and> dict_get d k dflt = v"
  by (simp add: dict_item_def dict_get_def)

lemma joined_same_input: "hash_input_checker joined_AB_C = hash_input_checker joined_A_BC"
  by code_simp

lemma joined_input_ok: "isl (hash_input_checker joined_A_BC) = False"
  by code_simp

lemma joined_keys_differ: "protein_key joined_AB_C \<noteq> protein_key joined_A_BC"
  by code_simp

lemma joined_fields_equal:
  "compare_proteins [joined_AB_C, joined_A_BC] [joined_A_BC, joined_AB_C] = Inr True"
  by code_simp

lemma scenario_A_fields:
  "list_all (\<lambda>k. map_of scenario_A k \<noteq> None)
     [''gene_id'', ''transcript_id'', ''sequence'', ''exons'', ''protein_coding'',
      ''nmd'', ''pdb_files'']"
  by code_simp

subsection \<open>Fingerprints\<close>

text \<open>The digest of the standard test message, computed by the definitions above.\<close>

lemma sha256_known_answer:
  "sha256_hexdigest (str_encode ''abc'')
   = ''ba7816bf8f01cfea414140de5dae2223b00361a396177a9cb410ff61f20015ad''"
  by code_simp

lemma scenario_A_digest:
  "hash_protein_checker scenario_A
   = Inr ''42c2cd01fbc6ab195c275cdd0aba42faf7febdcbc5ce5ee528354c339c543af7''"
  by code_simp

lemma scenario_B_digest:
  "hash_protein_checker scenario_B
   = Inr ''09f34abd9af5ae07b0f48968aca44b021d0c177eb1878c0036174bb1d2b2231a''"
  by code_simp

text \<open>Records A and B in swapped order do fail the ordered check.\<close>

lemma ordinary_swap_fails:
  "proof_compare_pkl_checker [scenario_A, scenario_B] [scenario_B, scenario_A] = Inr False"
  by (simp add: proof_compare_pkl_checker_def scenario_A_digest scenario_B_digest)

text \<open>
  C6.  The claim is that the ordered fingerprint check fails whenever two collections
  hold the same records with two of them at swapped positions.  The digest is taken
  over the fields written one after the other with nothing between them, so the keys
  (AB, C) and (A, BC) feed the same bytes: for the two records \<open>joined_AB_C\<close> and
  \<open>joined_A_BC\<close>, which have different keys and equal other fields, the check on the
  collection and its swap returns \<open>True\<close>, as the set and field check does.
\<close>

theorem fingerprint_misses_swap:
  "proof_compare_pkl_checker [joined_AB_C, joined_A_BC] [joined_A_BC, joined_AB_C] = Inr True
   \<and> protein_key joined_AB_C \<noteq> protein_key joined_A_BC
   \<and> compare_proteins [joined_AB_C, joined_A_BC] [joined_A_BC, joined_AB_C] = Inr True"
proof -
  obtain m where m: "hash_input_checker joined_A_BC = Inr m"
    using joined_input_ok by (cases "hash_input_checker joined_A_BC") auto
  have "hash_protein_checker joined_AB_C = Inr (sha256_hexdigest m)"
    and "hash_protein_checker joined_A_BC = Inr (sha256_hexdigest m)"
    using m joined_same_input by (simp_all add: hash_protein_checker_def)
  then have "proof_compare_pkl_checker [joined_AB_C, joined_A_BC] [joined_A_BC, joined_AB_C]
             = Inr True"
    by (simp add: proof_compare_pkl_checker_def)
  then show ?thesis
    using joined_keys_differ joined_fields_equal by simp
qed

text \<open>
  C9.  On a record that has all of gene_id, transcript_id, sequence, exons,
  protein_coding, nmd and pdb_files, the pipeline script's \<^verbatim>\<open>hash_protein\<close> and the
  checker script's \<^verbatim>\<open>hash_protein\<close> give the same result: the same digest, or the same
  exception when a field has a type the function cannot hash.
\<close>

theorem hash_protein_scripts_agree:
  assumes "list_all (\<lambda>k. map_of protein k \<noteq> None)
             [''gene_id'', ''transcript_id'', ''sequence'', ''exons'', ''protein_coding'',
              ''nmd'', ''pdb_files'']"
  shows "hash_protein_pipeline protein = hash_protein_checker protein"
proof -
  from assms obtain x pc n fs where
    "map_of protein ''exons'' = Some x" "map_of protein ''protein_coding'' = Some pc"
    "map_of protein ''nmd'' = Some n" "map_of protein ''pdb_files'' = Some fs"
    by auto
  then have "hash_input_pipeline protein = hash_input_checker protein"
    by (simp add: hash_input_pipeline_def hash_input_checker_def dict_item_def dict_get_def
        ebind_def split: sum.splits)
  then show ?thesis
    by (simp add: hash_protein_pipeline_def hash_protein_checker_def)
qed

theorem hash_protein_scripts_agree_witness:
  "list_all (\<lambda>k. map_of scenario_A k \<noteq> None)
     [''gene_id'', ''transcript_id'', ''sequence'', ''exons'', ''protein_coding'',
      ''nmd'', ''pdb_files'']
   \<and> hash_protein_pipeline scenario_A = hash_protein_checker scenario_A"
  using hash_protein_scripts_agree [OF scenario_A_fields] scenario_A_fields by simp

subsection \<open>Schema inference\<close>

text \<open>
  C5.  A column other than the position column and the two subrecord columns gets its
  type from the shape of the sample value alone: a boolean gives BOOLEAN, a dict or a
  list gives JSONB, every other value gives VARCHAR(400).  The position column is
  always INTEGER NOT NULL, the identifier column always TEXT[] and the content column
  always BYTEA[], whatever the sample value is.
\<close>

theorem infer_pg_type_by_shape:
  "infer_pg_type ''protein_index'' v = ''INTEGER NOT NULL''
   \<and> infer_pg_type ''pdb_ids'' v = ''TEXT[]''
   \<and> infer_pg_type ''pdb_files'' v = ''BYTEA[]''
   \<and> (key \<notin> {''protein_index'', ''pdb_ids'', ''pdb_files''} \<longrightarrow>
        infer_pg_type key v =
          (case v of PBool b \<Rightarrow> ''BOOLEAN''
           | PDict d \<Rightarrow> ''JSONB''
           | PList xs \<Rightarrow> ''JSONB''
           | _ \<Rightarrow> ''VARCHAR(400)''))"
  by (cases v) (simp_all add: infer_pg_type_def)

theorem infer_pg_type_by_shape_witness:
  "''nmd'' \<notin> {''protein_index'', ''pdb_ids'', ''pdb_files''}
   \<and> infer_pg_type ''nmd'' (PBool False) = ''BOOLEAN''
   \<and> infer_pg_type ''exons'' (PList [PInt 1]) = ''JSONB''
   \<and> infer_pg_type ''sequence'' (PStr ''MKV'') = ''VARCHAR(400)''
   \<and> infer_pg_type ''pdb_files'' (PBool True) = ''BYTEA[]''"
  using infer_pg_type_by_shape [of "PBool False" "''nmd''"]
    infer_pg_type_by_shape [of "PList [PInt 1]" "''exons''"]
    infer_pg_type_by_shape [of "PStr ''MKV''" "''sequence''"]
    infer_pg_type_by_shape [of "PBool True" "''nmd''"]
  by simp

subsection \<open>The checker's index\<close>

lemma find_app:
  "find P (xs @ ys) = (case find P xs of None \<Rightarrow> find P ys | Some x \<Rightarrow> Some x)"
  by (induction xs) auto

lemma py_eq_sym: "hashable a \<Longrightarrow> hashable b \<Longrightarrow> py_eq a b = py_eq b a"
  by (cases a; cases b) auto

lemma py_eq_trans:
  "hashable a \<Longrightarrow> hashable b \<Longrightarrow> hashable c \<Longrightarrow> py_eq a b \<Longrightarrow> py_eq b c \<Longrightarrow> py_eq a c"
  by (cases a; cases b; cases c) (auto split: if_splits)

lemma key_eq_sym: "hkey a \<Longrightarrow> hkey b \<Longrightarrow> key_eq a b = key_eq b a"
  unfolding key_eq_def hkey_def using py_eq_sym by blast

lemma key_eq_trans: "hkey a \<Longrightarrow> hkey b \<Longrightarrow> hkey c \<Longrightarrow> key_eq a b \<Longrightarrow> key_eq b c \<Longrightarrow> key_eq a c"
  unfolding key_eq_def hkey_def using py_eq_trans by blast

lemma kd_lookup_set:
  assumes "\<forall>e\<in>set d. hkey (fst e)" "hkey k'" "hkey k"
  shows "kd_lookup (kd_set d k' p) k = (if key_eq k' k then Some p else kd_lookup d k)"
  using assms
proof (induction d)
  case Nil
  then show ?case by simp
next
  case (Cons e d)
  then have he: "hkey (fst e)" by simp
  show ?case
  proof (cases "key_eq (fst e) k'")
    case True
    have "key_eq (fst e) k = key_eq k' k"
      using True he Cons.prems(2,3) key_eq_sym key_eq_trans by blast
    with True show ?thesis by simp
  next
    case False
    have "key_eq (fst e) k \<Longrightarrow> \<not> key_eq k' k"
      using False he Cons.prems(2,3) key_eq_sym key_eq_trans by blast
    with False Cons show ?thesis by auto
  qed
qed

lemma kd_set_hkey: "\<forall>e\<in>set d. hkey (fst e) \<Longrightarrow> hkey k \<Longrightarrow> \<forall>e\<in>set (kd_set d k p). hkey (fst e)"
  by (induction d) auto

lemma protein_key_hkey: "protein_key p = Inr k \<Longrightarrow> hkey k"
  by (auto simp: protein_key_def ebind_def hkey_def split: sum.splits if_splits)

lemma index_from_lookup:
  assumes "index_from acc ps = Inr m" "\<forall>e\<in>set acc. hkey (fst e)" "hkey k"
  shows "kd_lookup m k =
         (case find (has_key k) (rev ps) of Some p \<Rightarrow> Some p | None \<Rightarrow> kd_lookup acc k)"
  using assms
proof (induction ps arbitrary: acc)
  case Nil
  then show ?case by simp
next
  case (Cons p ps)
  from Cons.prems(1) obtain k' where k': "protein_key p = Inr k'"
    and rest: "index_from (kd_set acc k' p) ps = Inr m"
    by (auto split: sum.splits)
  have hk': "hkey k'" using k' by (rule protein_key_hkey)
  have "kd_lookup m k =
        (case find (has_key k) (rev ps) of Some q \<Rightarrow> Some q
         | None \<Rightarrow> kd_lookup (kd_set acc k' p) k)"
    using Cons.IH [OF rest kd_set_hkey [OF Cons.prems(2) hk'] Cons.prems(3)] .
  also have "kd_lookup (kd_set acc k' p) k = (if key_eq k' k then Some p else kd_lookup acc k)"
    using kd_lookup_set [OF Cons.prems(2) hk' Cons.prems(3)] .
  finally show ?case
    using k' by (simp add: find_app has_key_def split: option.splits)
qed

lemma duplicate_passes_proteins: "compare_proteins [scenario_A, scenario_A] [scenario_A] = Inr True"
  by code_simp

lemma duplicate_passes_files: "compare_pkl_files [scenario_A, scenario_A] [scenario_A] = Inr True"
  by code_simp

text \<open>
  C10.  \<^verbatim>\<open>index_by_key\<close> keeps one record per key pair, the last one in the collection:
  looking a hashable key up in the index gives the last record of the collection
  indexed under an equal key.  So \<^verbatim>\<open>compare_proteins\<close> and \<^verbatim>\<open>compare_pkl_files\<close>
  return \<open>True\<close> on a collection that holds record A twice against the collection
  that holds it once, although the two have different lengths.
\<close>

theorem index_keeps_last_and_hides_duplicates:
  "(index_by_key data = Inr m \<longrightarrow> hashable (fst k) \<and> hashable (snd k) \<longrightarrow>
      kd_lookup m k = find (has_key k) (rev data))
   \<and> compare_proteins [scenario_A, scenario_A] [scenario_A] = Inr True
   \<and> compare_pkl_files [scenario_A, scenario_A] [scenario_A] = Inr True
   \<and> length [scenario_A, scenario_A] \<noteq> length [scenario_A]"
proof -
  have "kd_lookup m k = find (has_key k) (rev data)"
    if "index_by_key data = Inr m" "hashable (fst k) \<and> hashable (snd k)"
    using index_from_lookup [of "[]" data m k] that
    by (simp add: index_by_key_def hkey_def split: option.splits)
  then show ?thesis
    using duplicate_passes_proteins duplicate_passes_files by simp
qed

lemma index_A_A2:
  "index_by_key [scenario_A, scenario_A2] = Inr [((PStr ''G1'', PStr ''T1''), scenario_A2)]"
  by code_simp

lemma find_A_A2:
  "find (has_key (PStr ''G1'', PStr ''T1'')) (rev [scenario_A, scenario_A2]) = Some scenario_A2"
  by code_simp

theorem index_keeps_last_and_hides_duplicates_witness:
  "index_by_key [scenario_A, scenario_A2] = Inr [((PStr ''G1'', PStr ''T1''), scenario_A2)]
   \<and> hashable (fst (PStr ''G1'', PStr ''T1'')) \<and> hashable (snd (PStr ''G1'', PStr ''T1''))
   \<and> kd_lookup [((PStr ''G1'', PStr ''T1''), scenario_A2)] (PStr ''G1'', PStr ''T1'')
       = Some scenario_A2"
  using index_keeps_last_and_hides_duplicates
    [of "[scenario_A, scenario_A2]" "[((PStr ''G1'', PStr ''T1''), scenario_A2)]"
        "(PStr ''G1'', PStr ''T1'')"]
    index_A_A2 find_A_A2
  by simp

subsection \<open>Reading a row back\<close>


text \<open>
  C2.  The claim is that every value comes back from the table as it went in, bytes
  inside a structured value included.  \<^verbatim>\<open>make_json_safe\<close> replaces such bytes with
  the tagged dict, and nothing on the way back turns the tagged dict into bytes
  again: the record \<open>blob_record\<close>, whose field meta is a dict with the two bytes 00 01 under raw, is
  exported with meta holding the tagged dict.
\<close>

theorem nested_bytes_come_back_tagged:
  "pipeline_roundtrip [blob_record] = Inr [blob_record_exported]
   \<and> blob_record_exported \<noteq> blob_record"
  by code_simp

subsection \<open>What the insert step reports\<close>

text \<open>
  C8, as stated: the insert step returns the number of records attempted.  It has no
  return statement; called on records A and B it returns \<^verbatim>\<open>None\<close>, not 2.
\<close>

theorem insert_returns_none_counterexample:
  "(case insert_proteins_with_pdbs scenario_table (other_columns_of scenario_A)
           [scenario_A, scenario_B] of
      Inl e \<Rightarrow> False
    | Inr out \<Rightarrow> returned out \<noteq> PInt (int (length [scenario_A, scenario_B])))"
  by code_simp

text \<open>
  C8, amended.  A call of \<^verbatim>\<open>insert_proteins_with_pdbs\<close> that completes prints the
  length of the input collection as its number of proteins, whatever number of
  inserts was skipped for a key already in the table, and returns \<^verbatim>\<open>None\<close>.
\<close>

theorem insert_prints_attempts:
  assumes "insert_proteins_with_pdbs t other_columns data = Inr out"
  shows "printed_proteins out = length data \<and> returned out = PNone"
  using assms by (auto simp: insert_proteins_with_pdbs_def split: sum.splits prod.splits)

lemma rerun_A_A:
  "(case insert_proteins_with_pdbs scenario_table (other_columns_of scenario_A)
           [scenario_A, scenario_A] of
      Inl e \<Rightarrow> False
    | Inr out \<Rightarrow> length (tbl_rows (committed out)) = 1)"
  by code_simp

theorem insert_prints_attempts_witness:
  "(case insert_proteins_with_pdbs scenario_table (other_columns_of scenario_A)
           [scenario_A, scenario_A] of
      Inl e \<Rightarrow> False
    | Inr out \<Rightarrow> length (tbl_rows (committed out)) = 1 \<and> printed_proteins out = 2
                 \<and> returned out = PNone)"
proof (cases "insert_proteins_with_pdbs scenario_table (other_columns_of scenario_A)
           [scenario_A, scenario_A]")
  case (Inl e)
  then show ?thesis using rerun_A_A by simp
next
  case (Inr out)
  then show ?thesis
    using rerun_A_A insert_prints_attempts [OF Inr] by simp
qed

subsection \<open>Subrecords through the two array cells\<close>



lemma emap_all_Inr: "(\<And>x. x \<in> set xs \<Longrightarrow> f x = Inr (g x)) \<Longrightarrow> emap f xs = Inr (map g xs)"
  by (induction xs) auto




















subsection \<open>Running the insert step again\<close>








subsection \<open>From the collection to the table and back\<close>







































end
